theory Spec2Isabelle
  imports Complex_Main
begin

section \<open>Formatting helpers\<close>

text \<open>
  JavaScript numbers that the sampler handles as integers (byte counts, epoch
  milliseconds, CPU microseconds, configured limits) are modelled as \<open>int\<close>.
  Printing an integer in a template literal gives its decimal digits.
\<close>

definition digit :: "nat \<Rightarrow> char" where
  "digit d = ''0123456789'' ! d"

function decimal :: "int \<Rightarrow> string" where
  "decimal n = (if n < 10 then [digit (nat n)] else decimal (n div 10) @ [digit (nat (n mod 10))])"
  by pat_completeness auto
termination
  by (relation "measure nat") auto

declare decimal.simps [simp del]

definition show_int :: "int \<Rightarrow> string" where
  "show_int i = (if 0 \<le> i then decimal i else CHR ''-'' # decimal (- i))"

text \<open>
  \<open>Number.prototype.toFixed(2)\<close> on a finite value: the nearest multiple of
  \<open>1/100\<close>, the larger one on a tie, printed with two decimals.
\<close>

definition toFixed2 :: "rat \<Rightarrow> string" where
  "toFixed2 x =
     (let a = \<bar>x\<bar>;
          n = \<lfloor>a * 100 + 1 / 2\<rfloor>;
          frac = nat (n mod 100)
      in (if x < 0 then ''-'' else '''') @ show_int (n div 100) @ ''.'' @
         [digit (frac div 10), digit (frac mod 10)])"

text \<open>
  The remainder operator \<open>%\<close> of JavaScript truncates towards zero: the result
  has the sign of the dividend.
\<close>

definition js_rem :: "int \<Rightarrow> int \<Rightarrow> int" where
  "js_rem a b = sgn a * (\<bar>a\<bar> mod \<bar>b\<bar>)"

definition formatDuration :: "int \<Rightarrow> string" where
  "formatDuration ms =
     (let seconds = ms div 1000;
          minutes = seconds div 60;
          hours = minutes div 60;
          days = hours div 24
      in if days > 0 then
           show_int days @ ''d '' @ show_int (js_rem hours 24) @ ''h '' @
           show_int (js_rem minutes 60) @ ''m '' @ show_int (js_rem seconds 60) @ ''s''
         else if hours > 0 then
           show_int hours @ ''h '' @ show_int (js_rem minutes 60) @ ''m '' @
           show_int (js_rem seconds 60) @ ''s''
         else if minutes > 0 then
           show_int minutes @ ''m '' @ show_int (js_rem seconds 60) @ ''s''
         else if seconds > 0 then
           show_int seconds @ ''s''
         else
           show_int ms @ ''ms'')"

section \<open>JavaScript numbers that need not be finite\<close>

text \<open>
  A CPU percentage is the result of a floating-point division, which never
  raises in JavaScript: a zero divisor gives \<open>Infinity\<close>, \<open>-Infinity\<close> or
  \<open>NaN\<close>.  Such numbers are modelled with their finite values as exact
  rationals and the three special values of IEEE 754.  The sign of zero is
  not modelled, and a result is rounded only where that is said.
\<close>

datatype jsnum = Fin rat | PosInf | NegInf | NaN

definition js_sign :: "jsnum \<Rightarrow> int" where
  "js_sign x = (case x of Fin a \<Rightarrow> (if a < 0 then - 1 else if a = 0 then 0 else 1)
                | PosInf \<Rightarrow> 1 | NegInf \<Rightarrow> - 1 | NaN \<Rightarrow> 0)"

definition inf_of_sign :: "int \<Rightarrow> jsnum" where
  "inf_of_sign s = (if s < 0 then NegInf else PosInf)"

fun js_add :: "jsnum \<Rightarrow> jsnum \<Rightarrow> jsnum" where
  "js_add NaN _ = NaN"
| "js_add _ NaN = NaN"
| "js_add (Fin a) (Fin b) = Fin (a + b)"
| "js_add PosInf NegInf = NaN"
| "js_add NegInf PosInf = NaN"
| "js_add PosInf _ = PosInf"
| "js_add _ PosInf = PosInf"
| "js_add NegInf _ = NegInf"
| "js_add _ NegInf = NegInf"

fun js_mul :: "jsnum \<Rightarrow> jsnum \<Rightarrow> jsnum" where
  "js_mul NaN _ = NaN"
| "js_mul _ NaN = NaN"
| "js_mul (Fin a) (Fin b) = Fin (a * b)"
| "js_mul x y = (if js_sign x * js_sign y = 0 then NaN else inf_of_sign (js_sign x * js_sign y))"

fun js_div :: "jsnum \<Rightarrow> jsnum \<Rightarrow> jsnum" where
  "js_div NaN _ = NaN"
| "js_div _ NaN = NaN"
| "js_div (Fin a) (Fin b) =
     (if b = 0 then (if a = 0 then NaN else inf_of_sign (js_sign (Fin a))) else Fin (a / b))"
| "js_div (Fin a) _ = Fin 0"
| "js_div x (Fin b) = inf_of_sign (js_sign x * (if b < 0 then - 1 else 1))"
| "js_div _ _ = NaN"

text \<open>\<open>Math.max\<close> and \<open>Math.min\<close> of two numbers: \<open>NaN\<close> wins.\<close>

fun js_max :: "jsnum \<Rightarrow> jsnum \<Rightarrow> jsnum" where
  "js_max NaN _ = NaN"
| "js_max _ NaN = NaN"
| "js_max PosInf _ = PosInf"
| "js_max _ PosInf = PosInf"
| "js_max NegInf y = y"
| "js_max x NegInf = x"
| "js_max (Fin a) (Fin b) = Fin (max a b)"

fun js_min :: "jsnum \<Rightarrow> jsnum \<Rightarrow> jsnum" where
  "js_min NaN _ = NaN"
| "js_min _ NaN = NaN"
| "js_min NegInf _ = NegInf"
| "js_min _ NegInf = NegInf"
| "js_min PosInf y = y"
| "js_min x PosInf = x"
| "js_min (Fin a) (Fin b) = Fin (min a b)"

definition js_of_int :: "int \<Rightarrow> jsnum" where
  "js_of_int i = Fin (rat_of_int i)"

subsection \<open>Rounding to a double\<close>

text \<open>
  Where the rounding of a quotient decides a result it is modelled: the
  nearest double, ties to the even significand.  Overflow and subnormal
  numbers are not modelled.
\<close>

function bit_length :: "int \<Rightarrow> int" where
  "bit_length n = (if n \<le> 0 then 0 else bit_length (n div 2) + 1)"
  by pat_completeness auto
termination
  by (relation "measure nat") auto

declare bit_length.simps [simp del]

definition pow_int :: "rat \<Rightarrow> int \<Rightarrow> rat" where
  "pow_int b i = (if 0 \<le> i then b ^ nat i else 1 / b ^ nat (- i))"

text \<open>For \<open>a > 0\<close>, the exponent \<open>e\<close> with \<open>2 ^ e \<le> a < 2 ^ (e + 1)\<close>.\<close>

definition binary_exponent :: "rat \<Rightarrow> int" where
  "binary_exponent a =
     (if 1 \<le> a then bit_length \<lfloor>a\<rfloor> - 1
      else (let r = 1 / a;
                b = bit_length \<lfloor>r\<rfloor>
            in if r = 2 ^ nat (b - 1) then - (b - 1) else - b))"

definition round_half_even :: "rat \<Rightarrow> int" where
  "round_half_even q =
     (let f = \<lfloor>q\<rfloor>;
          d = q - rat_of_int f
      in if d < 1 / 2 then f else if 1 / 2 < d then f + 1 else if even f then f else f + 1)"

definition round_double :: "rat \<Rightarrow> rat" where
  "round_double x =
     (if x = 0 then 0
      else (let a = \<bar>x\<bar>;
                ulp = pow_int 2 (binary_exponent a - 52);
                m = round_half_even (a / ulp)
            in sgn x * rat_of_int m * ulp))"

fun js_round :: "jsnum \<Rightarrow> jsnum" where
  "js_round (Fin a) = Fin (round_double a)"
| "js_round x = x"

text \<open>The division operator with its result rounded, and \<open>Math.floor\<close>.\<close>

definition js_fdiv :: "jsnum \<Rightarrow> jsnum \<Rightarrow> jsnum" where
  "js_fdiv x y = js_round (js_div x y)"

fun js_floor :: "jsnum \<Rightarrow> jsnum" where
  "js_floor (Fin a) = Fin (rat_of_int \<lfloor>a\<rfloor>)"
| "js_floor x = x"

text \<open>
  \<open>Math.pow(k, i)\<close> for a base \<open>k > 1\<close> and an exponent that \<open>Math.floor\<close>
  returned: an integer, an infinity or \<open>NaN\<close>.
\<close>

fun Math_pow :: "int \<Rightarrow> jsnum \<Rightarrow> jsnum" where
  "Math_pow k (Fin a) = Fin (round_double (pow_int (rat_of_int k) \<lfloor>a\<rfloor>))"
| "Math_pow k PosInf = PosInf"
| "Math_pow k NegInf = Fin 0"
| "Math_pow k NaN = NaN"

subsection \<open>formatBytes\<close>

text \<open>\<open>toFixed(2)\<close> on any number (below \<open>10 ^ 21\<close> in magnitude when finite).\<close>

fun js_toFixed2 :: "jsnum \<Rightarrow> string" where
  "js_toFixed2 (Fin a) = toFixed2 a"
| "js_toFixed2 PosInf = ''Infinity''"
| "js_toFixed2 NegInf = ''-Infinity''"
| "js_toFixed2 NaN = ''NaN''"

definition sizes :: "string list" where
  "sizes = [''B'', ''KB'', ''MB'', ''GB'', ''TB'']"

text \<open>\<open>sizes[i]\<close>: an index that is not one of \<open>0, \<dots>, 4\<close> reads \<open>undefined\<close>.\<close>

definition sizes_at :: "jsnum \<Rightarrow> string" where
  "sizes_at i =
     (case i of
        Fin a \<Rightarrow>
          (if a = rat_of_int \<lfloor>a\<rfloor> \<and> 0 \<le> a \<and> a < rat_of_nat (length sizes)
           then sizes ! nat \<lfloor>a\<rfloor> else ''undefined'')
      | _ \<Rightarrow> ''undefined'')"

text \<open>
  \<open>formatBytes\<close>, for an integral byte count.  \<open>Math.log\<close> is a function of
  the host, specified only as an approximation of the natural logarithm: it
  is the parameter \<open>Math_log\<close>, which gives the number that the host returns
  (\<open>NaN\<close> on a negative argument).
\<close>

definition formatBytes :: "(int \<Rightarrow> jsnum) \<Rightarrow> int \<Rightarrow> string" where
  "formatBytes Math_log bytes =
     (if bytes = 0 then ''0 B''
      else let k = 1024;
               i = js_floor (js_fdiv (Math_log bytes) (Math_log k))
           in js_toFixed2 (js_fdiv (js_of_int bytes) (Math_pow k i)) @ '' '' @ sizes_at i)"

text \<open>
  \<open>x || d\<close> on an optional integer: \<open>undefined\<close>, \<open>null\<close> and \<open>0\<close> are falsy.
\<close>

definition truthy :: "int option \<Rightarrow> bool" where
  "truthy x = (case x of None \<Rightarrow> False | Some n \<Rightarrow> n \<noteq> 0)"

definition or_else :: "int option \<Rightarrow> int \<Rightarrow> int" where
  "or_else x d = (case x of None \<Rightarrow> d | Some n \<Rightarrow> (if n \<noteq> 0 then n else d))"

definition or_null :: "int option \<Rightarrow> int option" where
  "or_null x = (if truthy x then x else None)"

datatype error = Error string

text \<open>\<open>safeExecute\<close>: the value of a computation, or the default when it throws.\<close>

definition safeExecute :: "error + 'a \<Rightarrow> 'a \<Rightarrow> 'a" where
  "safeExecute fn defaultValue = (case fn of Inl _ \<Rightarrow> defaultValue | Inr v \<Rightarrow> v)"

section \<open>Snapshots\<close>

text \<open>What \<open>process.memoryUsage()\<close> and \<open>process.cpuUsage()\<close> return.\<close>

record MemoryUsage =
  mu_rss :: int
  mu_heapTotal :: int
  mu_heapUsed :: int
  mu_external :: int
  mu_arrayBuffers :: "int option"

record CpuUsage =
  user :: int
  system :: int

record MemorySnapshot =
  m_timestamp :: int
  rss :: int
  heapTotal :: int
  heapUsed :: int
  external :: int
  arrayBuffers :: int

text \<open>
  The constructor of \<open>MemorySnapshot\<close> reads \<open>process.memoryUsage()\<close> and then
  \<open>Date.now()\<close>; both readings are arguments here.
\<close>

definition MemorySnapshot_new :: "MemoryUsage \<Rightarrow> int \<Rightarrow> MemorySnapshot" where
  "MemorySnapshot_new memUsage now =
     \<lparr> m_timestamp = now,
       rss = mu_rss memUsage,
       heapTotal = mu_heapTotal memUsage,
       heapUsed = mu_heapUsed memUsage,
       external = mu_external memUsage,
       arrayBuffers = or_else (mu_arrayBuffers memUsage) 0 \<rparr>"

definition total :: "MemorySnapshot \<Rightarrow> int" where
  "total s = heapUsed s"

record CPUSnapshot =
  c_timestamp :: int
  usage :: CpuUsage
  percentage :: jsnum

text \<open>
  The constructor of \<open>CPUSnapshot\<close>: \<open>now\<close> is the reading of \<open>Date.now()\<close>,
  \<open>cu\<close> that of \<open>process.cpuUsage()\<close>.  With a previous snapshot the
  percentage is \<open>(totalDelta / (timeDelta * 1000)) * 100\<close>, computed without
  any test on \<open>timeDelta\<close>.
\<close>

definition CPUSnapshot_new :: "int \<Rightarrow> CpuUsage \<Rightarrow> CPUSnapshot option \<Rightarrow> CPUSnapshot" where
  "CPUSnapshot_new now cu previousUsage =
     (case previousUsage of
        None \<Rightarrow> \<lparr> c_timestamp = now, usage = cu, percentage = Fin 0 \<rparr>
      | Some prev \<Rightarrow>
          (let timeDelta = now - c_timestamp prev;
               userDelta = user cu - user (usage prev);
               systemDelta = system cu - system (usage prev);
               totalDelta = userDelta + systemDelta
           in \<lparr> c_timestamp = now, usage = cu,
                percentage =
                  js_mul (js_div (js_of_int totalDelta) (js_of_int (timeDelta * 1000)))
                         (Fin 100) \<rparr>))"

section \<open>The event-loop monitor\<close>

text \<open>
  The armed timer of the monitor keeps its period and the variable \<open>lastCheck\<close>
  of the closure; \<open>performance.now()\<close> readings are rationals.
\<close>

record LagTimer =
  timer_period :: int
  timer_lastCheck :: rat

record EventLoopMonitor =
  samples :: "rat list"
  checkInterval :: "LagTimer option"

definition EventLoopMonitor_new :: EventLoopMonitor where
  "EventLoopMonitor_new = \<lparr> samples = [], checkInterval = None \<rparr>"

definition elm_start :: "EventLoopMonitor \<Rightarrow> rat \<Rightarrow> int \<Rightarrow> EventLoopMonitor" where
  "elm_start m now ival =
     (if checkInterval m \<noteq> None then m
      else m\<lparr>checkInterval := Some \<lparr> timer_period = ival, timer_lastCheck = now \<rparr>\<rparr>)"

definition elm_tick :: "EventLoopMonitor \<Rightarrow> rat \<Rightarrow> EventLoopMonitor" where
  "elm_tick m now =
     (case checkInterval m of
        None \<Rightarrow> m
      | Some t \<Rightarrow>
          (let actualDelay = now - timer_lastCheck t;
               expectedDelay = rat_of_int (timer_period t);
               lag = max 0 (actualDelay - expectedDelay)
           in m\<lparr>samples := samples m @ [lag],
                checkInterval := Some (t\<lparr>timer_lastCheck := now\<rparr>)\<rparr>))"

definition elm_stop :: "EventLoopMonitor \<Rightarrow> EventLoopMonitor" where
  "elm_stop m = (if checkInterval m \<noteq> None then m\<lparr>checkInterval := None\<rparr> else m)"

record LagStats =
  lag_average :: rat
  lag_max :: rat
  lag_min :: rat

definition getStats :: "EventLoopMonitor \<Rightarrow> LagStats" where
  "getStats m =
     (if length (samples m) = 0 then \<lparr> lag_average = 0, lag_max = 0, lag_min = 0 \<rparr>
      else \<lparr> lag_average = foldl (+) 0 (samples m) / rat_of_nat (length (samples m)),
             lag_max = foldl max (hd (samples m)) (tl (samples m)),
             lag_min = foldl min (hd (samples m)) (tl (samples m)) \<rparr>)"

section \<open>The session object\<close>

record AlertInfo =
  a_type :: string
  a_timestamp :: int
  a_current :: int
  a_threshold :: int
  a_formatted_current :: string
  a_formatted_threshold :: string
  a_name :: string

text \<open>A caller-supplied callback returns or throws; its own effects are outside.\<close>

type_synonym AlertCallback = "AlertInfo \<Rightarrow> error + unit"

record DiagnosticsOptions =
  opt_name :: "string option"
  opt_interval :: "int option"
  opt_threshold :: "int option"
  opt_alert :: "AlertCallback option"
  opt_target :: "int option"
  opt_monitorEventLoop :: "bool option"

text \<open>
  The host information of \<open>_collectSystemInfo\<close> is echoed into the report and
  never inspected; a few of its fields stand for the whole object, and
  \<open>EmptyInfo\<close> is the object \<open>{}\<close>.
\<close>

datatype SystemInfo = EmptyInfo | HostInfo (platform: string) (arch: string) (pid: int)

definition collectSystemInfo :: "error + SystemInfo \<Rightarrow> SystemInfo" where
  "collectSystemInfo host = safeExecute host EmptyInfo"

text \<open>
  The fields of \<open>Diagnostics\<close>.  \<open>intervalHandle\<close> holds the period of the armed
  sampling timer.  \<open>alertsDelivered\<close> is not a field of the source: it records
  the payloads with which the alert callback has been invoked.
\<close>

record Diagnostics =
  name :: string
  interval :: int
  threshold :: "int option"
  alert :: AlertCallback
  target :: "int option"
  monitorEventLoop :: bool
  running :: bool
  startTime :: "int option"
  endTime :: "int option"
  intervalHandle :: "int option"
  memorySamples :: "MemorySnapshot list"
  cpuSamples :: "CPUSnapshot list"
  alertTriggerCount :: nat
  timeOverTarget :: int
  lastTargetCheck :: "int option"
  eventLoopMonitor :: EventLoopMonitor
  systemInfo :: SystemInfo
  alertsDelivered :: "AlertInfo list"

text \<open>\<open>!options.name\<close>: a missing name and the empty string are falsy.\<close>

definition name_missing :: "DiagnosticsOptions \<Rightarrow> bool" where
  "name_missing options = (case opt_name options of None \<Rightarrow> True | Some n \<Rightarrow> n = [])"

definition name_required :: error where
  \<open>name_required = Error ''Diagnostics requires a "name" option''\<close>

text \<open>The assignments of the constructor, made once the name has been validated.\<close>

definition Diagnostics_fields :: "DiagnosticsOptions \<Rightarrow> error + SystemInfo \<Rightarrow> Diagnostics" where
  "Diagnostics_fields options host =
     \<lparr> name = (case opt_name options of None \<Rightarrow> [] | Some n \<Rightarrow> n),
       interval = or_else (opt_interval options) 5000,
       threshold = or_null (opt_threshold options),
       alert = (case opt_alert options of None \<Rightarrow> (\<lambda>_. Inr ()) | Some f \<Rightarrow> f),
       target = or_null (opt_target options),
       monitorEventLoop = (opt_monitorEventLoop options \<noteq> Some False),
       running = False,
       startTime = None,
       endTime = None,
       intervalHandle = None,
       memorySamples = [],
       cpuSamples = [],
       alertTriggerCount = 0,
       timeOverTarget = 0,
       lastTargetCheck = None,
       eventLoopMonitor = EventLoopMonitor_new,
       systemInfo = collectSystemInfo host,
       alertsDelivered = [] \<rparr>"

text \<open>
  \<open>new Diagnostics(options)\<close>; \<open>host\<close> is the outcome of reading the host
  information, which may throw.
\<close>

definition Diagnostics_new :: "DiagnosticsOptions \<Rightarrow> error + SystemInfo \<Rightarrow> error + Diagnostics" where
  "Diagnostics_new options host =
     (if name_missing options then Inl name_required
      else Inr (Diagnostics_fields options host))"

subsection \<open>One sample\<close>

text \<open>
  What one run of \<open>_takeSample\<close> reads from the host, in the order of the
  reads: \<open>process.memoryUsage()\<close> (which may throw), \<open>Date.now()\<close> for the
  memory snapshot, \<open>Date.now()\<close> and \<open>process.cpuUsage()\<close> (which may throw)
  for the CPU snapshot, \<open>Date.now()\<close> and \<open>Math.log\<close> for the alert payload
  and its formatted byte counts, and \<open>Date.now()\<close> for the target check.
\<close>

record SampleEnv =
  memoryUsage :: "error + MemoryUsage"
  now_memory :: int
  now_cpu :: int
  cpuUsage :: "error + CpuUsage"
  now_alert :: int
  math_log :: "int \<Rightarrow> jsnum"
  now_target :: int

definition alert_payload :: "Diagnostics \<Rightarrow> MemorySnapshot \<Rightarrow> int \<Rightarrow> SampleEnv \<Rightarrow> AlertInfo" where
  "alert_payload d memSample thr e =
     \<lparr> a_type = ''threshold_exceeded'',
       a_timestamp = now_alert e,
       a_current = total memSample,
       a_threshold = thr,
       a_formatted_current = formatBytes (math_log e) (total memSample),
       a_formatted_threshold = formatBytes (math_log e) thr,
       a_name = name d \<rparr>"

text \<open>The threshold check; the result of the callback is discarded by \<open>safeExecute\<close>.\<close>

definition check_threshold :: "Diagnostics \<Rightarrow> MemorySnapshot \<Rightarrow> SampleEnv \<Rightarrow> Diagnostics" where
  "check_threshold d memSample e =
     (case threshold d of
        None \<Rightarrow> d
      | Some thr \<Rightarrow>
          if thr \<noteq> 0 \<and> total memSample > thr then
            (let info = alert_payload d memSample thr e;
                 u = safeExecute (alert d info) ()
             in d\<lparr>alertTriggerCount := alertTriggerCount d + 1,
                  alertsDelivered := alertsDelivered d @ [info]\<rparr>)
          else d)"

text \<open>The target accounting.\<close>

definition track_target :: "Diagnostics \<Rightarrow> MemorySnapshot \<Rightarrow> int \<Rightarrow> Diagnostics" where
  "track_target d memSample now =
     (case target d of
        None \<Rightarrow> d
      | Some tgt \<Rightarrow>
          if tgt \<noteq> 0 then
            (let d1 = (case lastTargetCheck d of
                         None \<Rightarrow> d
                       | Some lastCheck \<Rightarrow>
                           if lastCheck \<noteq> 0 then
                             (let timeDelta = now - lastCheck
                              in if total memSample > tgt
                                 then d\<lparr>timeOverTarget := timeOverTarget d + timeDelta\<rparr>
                                 else d)
                           else d)
             in d1\<lparr>lastTargetCheck := Some now\<rparr>)
          else d)"

text \<open>
  \<open>_takeSample\<close>.  The body runs inside \<open>try\<close>: a capture that throws ends it
  there, with the updates made so far kept.
\<close>

definition takeSample :: "Diagnostics \<Rightarrow> SampleEnv \<Rightarrow> Diagnostics" where
  "takeSample d e =
     (case memoryUsage e of
        Inl _ \<Rightarrow> d
      | Inr memUsage \<Rightarrow>
          (let memSample = MemorySnapshot_new memUsage (now_memory e);
               d1 = d\<lparr>memorySamples := memorySamples d @ [memSample]\<rparr>;
               lastCpuSample = (if cpuSamples d1 = [] then None else Some (last (cpuSamples d1)))
           in case cpuUsage e of
                Inl _ \<Rightarrow> d1
              | Inr cu \<Rightarrow>
                  (let cpuSample = CPUSnapshot_new (now_cpu e) cu lastCpuSample;
                       d2 = d1\<lparr>cpuSamples := cpuSamples d1 @ [cpuSample]\<rparr>;
                       d3 = check_threshold d2 memSample e
                   in track_target d3 memSample (now_target e))))"

subsection \<open>start, stop, reset, status\<close>

record StartEnv =
  now_startTime :: int
  now_lastTargetCheck :: int
  start_sample :: SampleEnv
  perf_now :: rat

definition start :: "Diagnostics \<Rightarrow> StartEnv \<Rightarrow> Diagnostics" where
  "start d e =
     (if running d then d
      else
        (let d1 = d\<lparr>running := True,
                    startTime := Some (now_startTime e),
                    memorySamples := [],
                    cpuSamples := [],
                    alertTriggerCount := 0,
                    timeOverTarget := 0,
                    lastTargetCheck := Some (now_lastTargetCheck e)\<rparr>;
             d2 = takeSample d1 (start_sample e);
             d3 = (if monitorEventLoop d2
                   then d2\<lparr>eventLoopMonitor := elm_start (eventLoopMonitor d2) (perf_now e) 100\<rparr>
                   else d2)
         in d3\<lparr>intervalHandle := Some (interval d3)\<rparr>))"

record StopEnv =
  now_endTime :: int
  stop_sample :: SampleEnv

definition stop :: "Diagnostics \<Rightarrow> StopEnv \<Rightarrow> Diagnostics" where
  "stop d e =
     (if \<not> running d then d
      else
        (let d1 = d\<lparr>running := False, endTime := Some (now_endTime e)\<rparr>;
             d2 = takeSample d1 (stop_sample e);
             d3 = (if intervalHandle d2 \<noteq> None then d2\<lparr>intervalHandle := None\<rparr> else d2)
         in d3\<lparr>eventLoopMonitor := elm_stop (eventLoopMonitor d3)\<rparr>))"

definition reset :: "Diagnostics \<Rightarrow> StopEnv \<Rightarrow> Diagnostics" where
  "reset d e =
     (let d1 = stop d e
      in d1\<lparr>memorySamples := [],
            cpuSamples := [],
            alertTriggerCount := 0,
            timeOverTarget := 0,
            lastTargetCheck := None,
            startTime := None,
            endTime := None\<rparr>)"

record Status =
  st_running :: bool
  st_name :: string
  samplesCollected :: nat
  uptime :: int

definition status :: "Diagnostics \<Rightarrow> int \<Rightarrow> Status" where
  "status d now =
     \<lparr> st_running = running d,
       st_name = name d,
       samplesCollected = length (memorySamples d),
       uptime = (if running d then now - (case startTime d of None \<Rightarrow> 0 | Some t \<Rightarrow> t) else 0) \<rparr>"

text \<open>A tick of the sampling timer: the callback runs only while the timer is armed.\<close>

definition tick :: "Diagnostics \<Rightarrow> SampleEnv \<Rightarrow> Diagnostics" where
  "tick d e = (if intervalHandle d \<noteq> None then takeSample d e else d)"

subsection \<open>Statistics and the report\<close>

record Stats =
  peak :: jsnum
  average :: jsnum
  low :: jsnum

text \<open>
  \<open>_calculateStats\<close>: \<open>Math.max\<close> and \<open>Math.min\<close> of a spread array start from
  \<open>-Infinity\<close> and \<open>Infinity\<close>; the sum is the \<open>reduce\<close> from \<open>0\<close>.
\<close>

definition calculateStats :: "'a list \<Rightarrow> ('a \<Rightarrow> jsnum) \<Rightarrow> Stats" where
  "calculateStats smpls accessor =
     (if length smpls = 0 then \<lparr> peak = Fin 0, average = Fin 0, low = Fin 0 \<rparr>
      else
        (let vals = map accessor smpls;
             sum = foldl js_add (Fin 0) vals
         in \<lparr> peak = foldl js_max NegInf vals,
              average = js_div sum (js_of_int (int (length vals))),
              low = foldl js_min PosInf vals \<rparr>))"

record Clock =
  clk_startTime :: "int option"
  clk_endTime :: "int option"
  duration :: int
  clk_human :: string

record Analysis =
  numSamples :: nat
  numOfAlertTriggers :: nat
  an_timeOverTarget :: int
  timeOverTargetHuman :: string
  timeUnderTarget :: int
  timeUnderTargetHuman :: string
  samplingInterval :: int
  an_threshold :: "int option"
  an_target :: "int option"

text \<open>
  The report, without the human-readable duplicates of the memory, CPU and
  event-loop figures and without the summary block, which repeats them.
\<close>

record Report =
  r_name :: string
  r_memory :: Stats
  r_heap :: Stats
  r_rss :: Stats
  r_cpu :: Stats
  r_eventLoop :: LagStats
  r_infos :: SystemInfo
  clock :: Clock
  analysis :: Analysis

text \<open>
  \<open>report\<close> stops a running session first, then reads \<open>Date.now()\<close> where
  \<open>endTime\<close> or \<open>startTime\<close> is falsy.  It returns the report and the session
  as \<open>stop\<close> left it.
\<close>

record ReportEnv =
  report_stop :: StopEnv
  now_endFallback :: int
  now_startFallback :: int

definition report :: "Diagnostics \<Rightarrow> ReportEnv \<Rightarrow> Report \<times> Diagnostics" where
  "report d0 e =
     (let d = (if running d0 then stop d0 (report_stop e) else d0);
          dur = or_else (endTime d) (now_endFallback e) - or_else (startTime d) (now_startFallback e);
          under = max 0 (dur - timeOverTarget d);
          memoryStats = calculateStats (memorySamples d) (\<lambda>s. js_of_int (total s));
          heapStats = calculateStats (memorySamples d) (\<lambda>s. js_of_int (heapUsed s));
          rssStats = calculateStats (memorySamples d) (\<lambda>s. js_of_int (rss s));
          cpuStats = calculateStats (drop 1 (cpuSamples d)) percentage;
          eventLoopStats = getStats (eventLoopMonitor d)
      in (\<lparr> r_name = name d,
            r_memory = memoryStats,
            r_heap = heapStats,
            r_rss = rssStats,
            r_cpu = cpuStats,
            r_eventLoop = eventLoopStats,
            r_infos = systemInfo d,
            clock = \<lparr> clk_startTime = startTime d,
                      clk_endTime = endTime d,
                      duration = dur,
                      clk_human = formatDuration dur \<rparr>,
            analysis = \<lparr> numSamples = length (memorySamples d),
                         numOfAlertTriggers = alertTriggerCount d,
                         an_timeOverTarget = timeOverTarget d,
                         timeOverTargetHuman = formatDuration (timeOverTarget d),
                         timeUnderTarget = under,
                         timeUnderTargetHuman = formatDuration under,
                         samplingInterval = interval d,
                         an_threshold = or_null (threshold d),
                         an_target = or_null (target d) \<rparr> \<rparr>, d))"

subsection \<open>Histories of a session\<close>

text \<open>
  The calls a caller can make and the timer callbacks the event loop can run,
  each with the readings it takes from the host.
\<close>

datatype op =
    Start StartEnv
  | Tick SampleEnv
  | Stop StopEnv
  | Report ReportEnv
  | Reset StopEnv
  | LagTick rat

fun step :: "Diagnostics \<Rightarrow> op \<Rightarrow> Diagnostics" where
  "step d (Start e) = start d e"
| "step d (Tick e) = tick d e"
| "step d (Stop e) = stop d e"
| "step d (Report e) = snd (report d e)"
| "step d (Reset e) = reset d e"
| "step d (LagTick now) = d\<lparr>eventLoopMonitor := elm_tick (eventLoopMonitor d) now\<rparr>"

definition run :: "Diagnostics \<Rightarrow> op list \<Rightarrow> Diagnostics" where
  "run d ops = foldl step d ops"

text \<open>The sample readings an operation carries.\<close>

fun op_samples :: "op \<Rightarrow> SampleEnv list" where
  "op_samples (Start e) = [start_sample e]"
| "op_samples (Tick e) = [e]"
| "op_samples (Stop e) = [stop_sample e]"
| "op_samples (Report e) = [stop_sample (report_stop e)]"
| "op_samples (Reset e) = [stop_sample e]"
| "op_samples (LagTick now) = []"

subsection \<open>Concrete sessions and readings\<close>

definition options_named :: "string \<Rightarrow> DiagnosticsOptions" where
  "options_named n =
     \<lparr> opt_name = Some n, opt_interval = None, opt_threshold = None,
       opt_alert = None, opt_target = None, opt_monitorEventLoop = None \<rparr>"

text \<open>The host information used in the examples, and a session on it.\<close>

definition host_ok :: "error + SystemInfo" where
  "host_ok = Inr (HostInfo ''linux'' ''x64'' 4242)"

definition session :: "DiagnosticsOptions \<Rightarrow> Diagnostics" where
  "session options = Diagnostics_fields options host_ok"

text \<open>
  A stand-in for \<open>Math.log\<close> in the examples: the double nearest to the
  logarithm of the largest power of two that is not above the argument.
\<close>

definition host_log :: "int \<Rightarrow> jsnum" where
  "host_log n =
     (if n < 0 then NaN
      else if n = 0 then NegInf
      else Fin (round_double (rat_of_int (bit_length n - 1) *
                              (6243314768165359 / 9007199254740992))))"

text \<open>
  Readings of one sample in which every clock read gives \<open>t\<close>, the heap in use
  is \<open>heap\<close> bytes and the process has used \<open>cpu\<close> microseconds of user time.
\<close>

definition sample_at :: "int \<Rightarrow> int \<Rightarrow> int \<Rightarrow> SampleEnv" where
  "sample_at t heap cpu =
     \<lparr> memoryUsage = Inr \<lparr> mu_rss = heap + 1000, mu_heapTotal = heap + 500, mu_heapUsed = heap,
                           mu_external = 0, mu_arrayBuffers = Some 0 \<rparr>,
       now_memory = t, now_cpu = t,
       cpuUsage = Inr \<lparr> user = cpu, system = 0 \<rparr>,
       now_alert = t, math_log = host_log, now_target = t \<rparr>"

definition start_at :: "int \<Rightarrow> int \<Rightarrow> int \<Rightarrow> StartEnv" where
  "start_at t heap cpu =
     \<lparr> now_startTime = t, now_lastTargetCheck = t,
       start_sample = sample_at t heap cpu, perf_now = rat_of_int t \<rparr>"

definition stop_at :: "int \<Rightarrow> int \<Rightarrow> int \<Rightarrow> StopEnv" where
  "stop_at t heap cpu = \<lparr> now_endTime = t, stop_sample = sample_at t heap cpu \<rparr>"

definition report_at :: "int \<Rightarrow> int \<Rightarrow> int \<Rightarrow> ReportEnv" where
  "report_at t heap cpu =
     \<lparr> report_stop = stop_at t heap cpu, now_endFallback = t, now_startFallback = t \<rparr>"

text \<open>One measurement window: \<open>start\<close>, the interval ticks, \<open>stop\<close>.\<close>

definition cycle_ops :: "StartEnv \<Rightarrow> SampleEnv list \<Rightarrow> StopEnv \<Rightarrow> op list" where
  "cycle_ops e0 es e1 = Start e0 # map Tick es @ [Stop e1]"

text \<open>
  What one sample appends to the memory sequence, and whether its two captures
  both succeed, or at least leave the two sequences in step (the CPU capture
  does not throw after the memory capture has succeeded).
\<close>

definition mem_capture :: "SampleEnv \<Rightarrow> MemorySnapshot list" where
  "mem_capture e =
     (case memoryUsage e of Inl _ \<Rightarrow> [] | Inr memUsage \<Rightarrow> [MemorySnapshot_new memUsage (now_memory e)])"

definition captures_ok :: "SampleEnv \<Rightarrow> bool" where
  "captures_ok e =
     (case memoryUsage e of Inl _ \<Rightarrow> False
      | Inr _ \<Rightarrow> (case cpuUsage e of Inl _ \<Rightarrow> False | Inr _ \<Rightarrow> True))"

definition paired :: "SampleEnv \<Rightarrow> bool" where
  "paired e =
     (case memoryUsage e of Inl _ \<Rightarrow> True
      | Inr _ \<Rightarrow> (case cpuUsage e of Inl _ \<Rightarrow> False | Inr _ \<Rightarrow> True))"

text \<open>Readings in which one of the two captures throws.\<close>

definition cpu_fails :: "SampleEnv \<Rightarrow> SampleEnv" where
  "cpu_fails e = e\<lparr>cpuUsage := Inl (Error ''cpuUsage failed'')\<rparr>"

definition memory_fails :: "SampleEnv \<Rightarrow> SampleEnv" where
  "memory_fails e = e\<lparr>memoryUsage := Inl (Error ''memoryUsage failed'')\<rparr>"

text \<open>Options with a sampling interval of 50 ms and a memory target.\<close>

definition options_target :: "int \<Rightarrow> DiagnosticsOptions" where
  "options_target tgt = (options_named ''job'')\<lparr>opt_interval := Some 50, opt_target := Some tgt\<rparr>"

text \<open>
  The \<open>Date.now()\<close> readings of one measurement window that the target
  accounting and the clock of the report depend on, in the order they are taken.
\<close>

definition cycle_clock :: "StartEnv \<Rightarrow> SampleEnv list \<Rightarrow> StopEnv \<Rightarrow> int list" where
  "cycle_clock e0 es e1 =
     [now_startTime e0, now_lastTargetCheck e0] @ map now_target (start_sample e0 # es) @
     [now_endTime e1, now_target (stop_sample e1)]"

section \<open>Properties\<close>

subsection \<open>What the operations leave unchanged\<close>

text \<open>The sessions of the examples are what the constructor returns.\<close>

lemma session_constructed:
  "\<not> name_missing options \<Longrightarrow> Diagnostics_new options host_ok = Inr (session options)"
  by (simp add: Diagnostics_new_def session_def)

lemma check_threshold_fields:
  "memorySamples (check_threshold d m t) = memorySamples d"
  "cpuSamples (check_threshold d m t) = cpuSamples d"
  "timeOverTarget (check_threshold d m t) = timeOverTarget d"
  "lastTargetCheck (check_threshold d m t) = lastTargetCheck d"
  "target (check_threshold d m t) = target d"
  "threshold (check_threshold d m t) = threshold d"
  by (simp_all add: check_threshold_def Let_def split: option.splits)

lemma track_target_fields:
  "memorySamples (track_target d m t) = memorySamples d"
  "cpuSamples (track_target d m t) = cpuSamples d"
  "alertTriggerCount (track_target d m t) = alertTriggerCount d"
  "alertsDelivered (track_target d m t) = alertsDelivered d"
  "target (track_target d m t) = target d"
  "threshold (track_target d m t) = threshold d"
  by (simp_all add: track_target_def Let_def split: option.splits)

lemma run_Nil: "run d [] = d"
  by (simp add: run_def)

lemma run_Cons: "run d (x # xs) = run (step d x) xs"
  by (simp add: run_def)

lemma run_append: "run d (xs @ ys) = run (run d xs) ys"
  by (simp add: run_def)

lemma takeSample_config:
  "name (takeSample d e) = name d \<and> interval (takeSample d e) = interval d \<and>
   threshold (takeSample d e) = threshold d \<and> target (takeSample d e) = target d \<and>
   alert (takeSample d e) = alert d \<and> monitorEventLoop (takeSample d e) = monitorEventLoop d \<and>
   running (takeSample d e) = running d \<and> intervalHandle (takeSample d e) = intervalHandle d \<and>
   startTime (takeSample d e) = startTime d \<and> endTime (takeSample d e) = endTime d \<and>
   eventLoopMonitor (takeSample d e) = eventLoopMonitor d \<and> systemInfo (takeSample d e) = systemInfo d"
  by (simp add: takeSample_def check_threshold_def track_target_def Let_def
           split: sum.splits option.splits)

lemma stop_config:
  "name (stop d e) = name d \<and> interval (stop d e) = interval d \<and>
   threshold (stop d e) = threshold d \<and> target (stop d e) = target d \<and>
   alert (stop d e) = alert d \<and> monitorEventLoop (stop d e) = monitorEventLoop d"
  by (simp add: stop_def Let_def takeSample_config)

lemma takeSample_shape:
  "takeSample d e = d \<or>
   (\<exists>m. takeSample d e = d\<lparr>memorySamples := memorySamples d @ [m]\<rparr>) \<or>
   (\<exists>m c. takeSample d e =
      track_target
        (check_threshold
           (d\<lparr>memorySamples := memorySamples d @ [m], cpuSamples := cpuSamples d @ [c]\<rparr>)
           m e)
        m (now_target e))"
  by (auto simp: takeSample_def Let_def split: sum.splits)

subsection \<open>Formatting\<close>




text \<open>The rounding at the doubles of \<open>1/3\<close> and \<open>1/10\<close> and at two ties.\<close>

lemma round_double_examples:
  "round_double (1 / 3) = 6004799503160661 / 18014398509481984 \<and>
   round_double (1 / 10) = 3602879701896397 / 36028797018963968 \<and>
   round_double (2 ^ 53 + 1) = 2 ^ 53 \<and> round_double (2 ^ 53 + 3) = 2 ^ 53 + 4"
  by code_simp








text \<open>
  The examples of the documentation, and a byte count just below \<open>2 ^ 50\<close> on
  a host that returns the doubles nearest to the logarithms: the logarithm of
  \<open>2 ^ 50 - 1\<close> rounds to that of \<open>2 ^ 50\<close>, the index is 5, and no unit is
  printed.
\<close>

lemma unit_boundary_example:
  "formatBytes (\<lambda>n. if n = 1024 then Fin (7804143460206699 / 1125899906842624)
                     else Fin (4877589662629187 / 140737488355328)) (2 ^ 50 - 1)
     = ''1.00 undefined''"
  by code_simp

lemma documented_examples:
  "formatBytes host_log 1536 = ''1.50 KB'' \<and> formatBytes host_log 500000000 = ''476.84 MB'' \<and>
   formatBytes host_log 100000000 = ''95.37 MB'' \<and> formatDuration 3661000 = ''1h 1m 1s''"
  by code_simp


subsection \<open>The CPU percentage at a zero time delta\<close>

lemma same_timestamp_percentage:
  "c_timestamp prev = now \<Longrightarrow>
   percentage (CPUSnapshot_new now cu (Some prev)) \<in> {NaN, PosInf, NegInf}"
  by (simp add: CPUSnapshot_new_def Let_def js_of_int_def inf_of_sign_def)

text \<open>
  C2: a CPU snapshot taken in the same millisecond as its predecessor is to
  have percentage 0, without a division by zero.  The constructor divides by
  the zero delta: the percentage is \<open>Infinity\<close> when CPU time was used in
  between and \<open>NaN\<close> when none was, and a session started and stopped within
  one millisecond reports these values as its CPU statistics.
\<close>

theorem C2_same_millisecond_percentage:
  "percentage (CPUSnapshot_new 1000 \<lparr>user = 500, system = 0\<rparr>
      (Some (CPUSnapshot_new 1000 \<lparr>user = 100, system = 0\<rparr> None))) = PosInf \<and>
   percentage (CPUSnapshot_new 1000 \<lparr>user = 100, system = 0\<rparr>
      (Some (CPUSnapshot_new 1000 \<lparr>user = 100, system = 0\<rparr> None))) = NaN \<and>
   r_cpu (fst (report (run (session (options_named ''job''))
                         [Start (start_at 1000 50 10), Stop (stop_at 1000 50 30)])
                      (report_at 1200 50 40)))
     = \<lparr>peak = PosInf, average = PosInf, low = PosInf\<rparr>"
  by code_simp

subsection \<open>Construction\<close>

text \<open>
  C6: constructing without a name (no name, or the empty string, which
  \<open>!options.name\<close> treats alike) fails with the configuration error;
  constructing with a name succeeds, whatever the reading of the host
  information does.
\<close>

theorem C6_constructor_name:
  "(name_missing options \<longrightarrow> Diagnostics_new options host = Inl name_required) \<and>
   (\<not> name_missing options \<longrightarrow>
      (\<exists>d. Diagnostics_new options host = Inr d \<and> Some (name d) = opt_name options \<and>
           \<not> running d \<and> memorySamples d = [] \<and> cpuSamples d = []))"
  by (auto simp: Diagnostics_new_def Diagnostics_fields_def name_missing_def split: option.splits)

theorem C6_constructor_name_witness:
  "name_missing ((options_named ''job'')\<lparr>opt_name := None\<rparr>) \<and>
   Diagnostics_new ((options_named ''job'')\<lparr>opt_name := None\<rparr>) (Inr EmptyInfo) = Inl name_required \<and>
   \<not> name_missing (options_named ''job'') \<and>
   (\<exists>d. Diagnostics_new (options_named ''job'') (Inl (Error ''no host information'')) = Inr d \<and>
        Some (name d) = opt_name (options_named ''job'') \<and>
        \<not> running d \<and> memorySamples d = [] \<and> cpuSamples d = [])"
  using C6_constructor_name [of "(options_named ''job'')\<lparr>opt_name := None\<rparr>" "Inr EmptyInfo"]
        C6_constructor_name [of "options_named ''job''" "Inl (Error ''no host information'')"]
  by (simp add: name_missing_def options_named_def)

subsection \<open>reset\<close>

text \<open>
  \<open>reset\<close> empties the memory and CPU sample sequences, zeroes the alert
  counter and the time over target, clears the last target check and the
  start and end timestamps, and leaves the name, interval, threshold, target,
  alert callback and \<open>monitorEventLoop\<close> flag as they were.
\<close>

lemma reset_listed_fields:
  "memorySamples (reset d e) = [] \<and> cpuSamples (reset d e) = [] \<and>
   alertTriggerCount (reset d e) = 0 \<and> timeOverTarget (reset d e) = 0 \<and>
   lastTargetCheck (reset d e) = None \<and>
   startTime (reset d e) = None \<and> endTime (reset d e) = None \<and>
   name (reset d e) = name d \<and> interval (reset d e) = interval d \<and>
   threshold (reset d e) = threshold d \<and> target (reset d e) = target d \<and>
   alert (reset d e) = alert d \<and> monitorEventLoop (reset d e) = monitorEventLoop d"
  by (simp add: reset_def Let_def stop_config)

text \<open>
  The lag samples of the event-loop monitor are accumulated state as well,
  and no assignment of \<open>reset\<close> (or of \<open>stop\<close> and \<open>start\<close>) touches them.
\<close>

lemma reset_keeps_lag_samples:
  "samples (eventLoopMonitor (reset d e)) = samples (eventLoopMonitor d)"
  by (simp add: reset_def stop_def Let_def takeSample_config elm_stop_def)

text \<open>
  C8: \<open>reset\<close> is to clear all accumulated state and keep the configuration.
  It does so for the sample sequences, the counters and the timestamps, but
  not for the lag samples: a lag of 30 ms recorded before \<open>reset\<close> is still
  held after it, while the sample count is 0, and the report of the next
  session gives it as the average, maximum and minimum lag although no lag
  was recorded in that session.
\<close>

theorem C8_reset_keeps_earlier_lag:
  "samples (eventLoopMonitor (run (session (options_named ''job''))
      [Start (start_at 1000 50 10), LagTick 1130, Reset (stop_at 1200 50 20)])) = [30] \<and>
   length (memorySamples (run (session (options_named ''job''))
      [Start (start_at 1000 50 10), LagTick 1130, Reset (stop_at 1200 50 20)])) = 0 \<and>
   r_eventLoop (fst (report (run (session (options_named ''job''))
      [Start (start_at 1000 50 10), LagTick 1130, Reset (stop_at 1200 50 20),
       Start (start_at 2000 50 30), Stop (stop_at 2100 50 40)]) (report_at 2200 50 50)))
     = \<lparr>lag_average = 30, lag_max = 30, lag_min = 30\<rparr>"
  by code_simp

subsection \<open>Samples of a measurement window\<close>

lemma takeSample_memorySamples:
  "memorySamples (takeSample d e) = memorySamples d @ mem_capture e"
  by (simp add: check_threshold_fields track_target_fields takeSample_def mem_capture_def Let_def split: sum.splits)

lemma takeSample_cpu_length:
  "length (cpuSamples (takeSample d e)) = length (cpuSamples d) + (if captures_ok e then 1 else 0)"
  by (simp add: check_threshold_fields track_target_fields takeSample_def captures_ok_def Let_def split: sum.splits)

lemma run_ticks:
  "intervalHandle d \<noteq> None \<Longrightarrow>
   memorySamples (run d (map Tick es)) = memorySamples d @ concat (map mem_capture es) \<and>
   length (cpuSamples (run d (map Tick es))) = length (cpuSamples d) + length (filter captures_ok es) \<and>
   running (run d (map Tick es)) = running d \<and>
   intervalHandle (run d (map Tick es)) = intervalHandle d"
proof (induction es arbitrary: d)
  case Nil
  show ?case by (simp add: run_Nil)
next
  case (Cons e es)
  have armed: "intervalHandle (tick d e) \<noteq> None"
    using Cons.prems by (simp add: tick_def takeSample_config)
  show ?case
    using Cons.IH [OF armed] Cons.prems
    by (simp add: run_Cons tick_def takeSample_config takeSample_memorySamples takeSample_cpu_length)
qed

lemma start_samples:
  "\<not> running d \<Longrightarrow>
   memorySamples (start d e) = mem_capture (start_sample e) \<and>
   length (cpuSamples (start d e)) = (if captures_ok (start_sample e) then 1 else 0) \<and>
   running (start d e) \<and> intervalHandle (start d e) \<noteq> None"
  by (simp add: start_def Let_def takeSample_config takeSample_memorySamples takeSample_cpu_length)

lemma stop_samples:
  "running d \<Longrightarrow>
   memorySamples (stop d e) = memorySamples d @ mem_capture (stop_sample e) \<and>
   length (cpuSamples (stop d e)) = length (cpuSamples d) + (if captures_ok (stop_sample e) then 1 else 0)"
  by (simp add: stop_def Let_def takeSample_config takeSample_memorySamples takeSample_cpu_length)

lemma cycle_samples:
  assumes "\<not> running d"
  shows "memorySamples (run d (cycle_ops e0 es e1)) =
           concat (map mem_capture (start_sample e0 # es @ [stop_sample e1]))"
    and "length (cpuSamples (run d (cycle_ops e0 es e1))) =
           length (filter captures_ok (start_sample e0 # es @ [stop_sample e1]))"
proof -
  let ?d1 = "start d e0"
  let ?d2 = "run ?d1 (map Tick es)"
  from start_samples [OF assms, of e0]
  have s1: "memorySamples ?d1 = mem_capture (start_sample e0)"
    and c1: "length (cpuSamples ?d1) = (if captures_ok (start_sample e0) then 1 else 0)"
    and r1: "running ?d1" and h1: "intervalHandle ?d1 \<noteq> None" by simp_all
  from run_ticks [OF h1, of es]
  have s2: "memorySamples ?d2 = memorySamples ?d1 @ concat (map mem_capture es)"
    and c2: "length (cpuSamples ?d2) = length (cpuSamples ?d1) + length (filter captures_ok es)"
    and r2: "running ?d2 = running ?d1" by simp_all
  from r1 r2 have r2': "running ?d2" by simp
  from stop_samples [OF r2', of e1]
  have s3: "memorySamples (stop ?d2 e1) = memorySamples ?d2 @ mem_capture (stop_sample e1)"
    and c3: "length (cpuSamples (stop ?d2 e1)) =
             length (cpuSamples ?d2) + (if captures_ok (stop_sample e1) then 1 else 0)" by simp_all
  show "memorySamples (run d (cycle_ops e0 es e1)) =
           concat (map mem_capture (start_sample e0 # es @ [stop_sample e1]))"
    using s1 s2 s3 by (simp add: cycle_ops_def run_Nil run_Cons run_append)
  show "length (cpuSamples (run d (cycle_ops e0 es e1))) =
           length (filter captures_ok (start_sample e0 # es @ [stop_sample e1]))"
    using c1 c2 c3 by (simp add: cycle_ops_def run_Nil run_Cons run_append)
qed

text \<open>
  C1, as the code has it: \<open>start\<close> on a stopped session empties both sample
  sequences, so after a \<open>start\<close>, interval ticks and \<open>stop\<close> the memory
  sequence holds exactly the samples captured in that window, whatever was
  collected before; after \<open>reset\<close> the sample count is zero.
\<close>

theorem C1_cycle_samples_are_its_own:
  "(\<not> running d \<longrightarrow>
      memorySamples (run d (cycle_ops e0 es e1)) =
        concat (map mem_capture (start_sample e0 # es @ [stop_sample e1]))) \<and>
   memorySamples (reset d e) = [] \<and>
   samplesCollected (status (reset d e) now) = 0"
  by (simp add: cycle_samples(1) reset_def Let_def status_def)

text \<open>
  Sample counts do not increase from one cycle to the next without a
  \<open>reset\<close>: a first cycle with one interval tick leaves 3 samples, and a second
  cycle without a tick, run right after it, leaves 2.
\<close>

theorem C1_counterexample:
  "length (memorySamples (run (session (options_named ''job''))
      (cycle_ops (start_at 1000 50 10) [sample_at 1050 50 20] (stop_at 1100 50 30)))) = 3 \<and>
   length (memorySamples (run (session (options_named ''job''))
      (cycle_ops (start_at 1000 50 10) [sample_at 1050 50 20] (stop_at 1100 50 30) @
       cycle_ops (start_at 2000 50 40) [] (stop_at 2100 50 50)))) = 2 \<and>
   \<not> length (memorySamples (run (session (options_named ''job''))
      (cycle_ops (start_at 1000 50 10) [sample_at 1050 50 20] (stop_at 1100 50 30))))
     < length (memorySamples (run (session (options_named ''job''))
      (cycle_ops (start_at 1000 50 10) [sample_at 1050 50 20] (stop_at 1100 50 30) @
       cycle_ops (start_at 2000 50 40) [] (stop_at 2100 50 50))))"
  by code_simp

theorem C1_cycle_samples_are_its_own_witness:
  "\<not> running (run (session (options_named ''job''))
      (cycle_ops (start_at 1000 50 10) [sample_at 1050 50 20] (stop_at 1100 50 30))) \<and>
   length (memorySamples (run (run (session (options_named ''job''))
      (cycle_ops (start_at 1000 50 10) [sample_at 1050 50 20] (stop_at 1100 50 30)))
      (cycle_ops (start_at 2000 50 40) [] (stop_at 2100 50 50)))) = 2 \<and>
   samplesCollected (status (reset (run (session (options_named ''job''))
      (cycle_ops (start_at 1000 50 10) [sample_at 1050 50 20] (stop_at 1100 50 30)))
      (stop_at 1200 50 40)) 1300) = 0"
proof -
  let ?d = "run (session (options_named ''job''))
      (cycle_ops (start_at 1000 50 10) [sample_at 1050 50 20] (stop_at 1100 50 30))"
  have h: "\<not> running ?d" by code_simp
  have c: "length (concat (map mem_capture
             (start_sample (start_at 2000 50 40) # [] @ [stop_sample (stop_at 2100 50 50)]))) = 2"
    by code_simp
  from C1_cycle_samples_are_its_own [of ?d "start_at 2000 50 40" "[]" "stop_at 2100 50 50"
      "stop_at 1200 50 40" 1300] h c
  show ?thesis by simp
qed

subsection \<open>The two sample sequences\<close>

lemma takeSample_parity:
  "paired e \<Longrightarrow> length (memorySamples d) = length (cpuSamples d) \<Longrightarrow>
   length (memorySamples (takeSample d e)) = length (cpuSamples (takeSample d e))"
  by (simp add: check_threshold_fields track_target_fields takeSample_def paired_def Let_def split: sum.splits)

lemma stop_parity:
  "paired (stop_sample e) \<Longrightarrow> length (memorySamples d) = length (cpuSamples d) \<Longrightarrow>
   length (memorySamples (stop d e)) = length (cpuSamples (stop d e))"
  by (simp add: stop_def Let_def takeSample_parity)

lemma step_parity:
  assumes "\<forall>e \<in> set (op_samples x). paired e"
    and "length (memorySamples d) = length (cpuSamples d)"
  shows "length (memorySamples (step d x)) = length (cpuSamples (step d x))"
proof (cases x)
  case (Start e)
  then show ?thesis using assms by (simp add: start_def Let_def takeSample_parity)
next
  case (Tick e)
  then show ?thesis using assms by (simp add: tick_def takeSample_parity)
next
  case (Stop e)
  then show ?thesis using assms by (simp add: stop_parity)
next
  case (Report e)
  then show ?thesis using assms by (simp add: report_def Let_def stop_parity)
next
  case (Reset e)
  then show ?thesis by (simp add: reset_def Let_def)
next
  case (LagTick t)
  then show ?thesis using assms by simp
qed

lemma run_parity:
  "\<forall>x \<in> set ops. \<forall>e \<in> set (op_samples x). paired e \<Longrightarrow>
   length (memorySamples d) = length (cpuSamples d) \<Longrightarrow>
   length (memorySamples (run d ops)) = length (cpuSamples (run d ops))"
proof (induction ops arbitrary: d)
  case Nil
  then show ?case by (simp add: run_Nil)
next
  case (Cons x xs)
  have "length (memorySamples (step d x)) = length (cpuSamples (step d x))"
    by (rule step_parity) (use Cons.prems in simp_all)
  with Cons show ?case by (simp add: run_Cons)
qed

lemma all_captured:
  "\<forall>e \<in> set xs. captures_ok e \<Longrightarrow>
   length (concat (map mem_capture xs)) = length xs \<and> filter captures_ok xs = xs"
  by (induction xs) (auto simp: captures_ok_def mem_capture_def split: sum.splits)

lemma cycle_lengths:
  assumes "\<not> running d" and "\<forall>e \<in> set (start_sample e0 # es @ [stop_sample e1]). captures_ok e"
  shows "length (memorySamples (run d (cycle_ops e0 es e1))) = length es + 2"
    and "length (cpuSamples (run d (cycle_ops e0 es e1))) = length es + 2"
  using all_captured [OF assms(2)] cycle_samples [OF assms(1), of e0 es e1]
  by simp_all

text \<open>
  C4, as the code has it: the memory and CPU sequences have the same length
  after every operation of a history in which no CPU capture throws after a
  successful memory capture (a sample whose memory capture throws changes
  neither sequence); and after \<open>start\<close>, \<open>n\<close> interval ticks and \<open>stop\<close>
  whose captures all succeed both lengths are \<open>n + 2\<close>.
\<close>

theorem C4_lengths_in_step:
  "(length (memorySamples d) = length (cpuSamples d) \<and>
    (\<forall>x \<in> set ops. \<forall>e \<in> set (op_samples x). paired e) \<longrightarrow>
      length (memorySamples (run d ops)) = length (cpuSamples (run d ops))) \<and>
   (\<not> running d \<and> (\<forall>e \<in> set (start_sample e0 # es @ [stop_sample e1]). captures_ok e) \<longrightarrow>
      length (memorySamples (run d (cycle_ops e0 es e1))) = length es + 2 \<and>
      length (cpuSamples (run d (cycle_ops e0 es e1))) = length es + 2)"
  using run_parity [of ops d] cycle_lengths [of d e0 es e1] by blast

text \<open>
  A tick whose memory capture succeeds and whose CPU capture throws leaves the
  memory sequence one longer than the CPU sequence: the memory sample is
  pushed before the CPU snapshot is constructed, and the \<open>catch\<close> keeps it.
\<close>

theorem C4_counterexample:
  "length (memorySamples (run (session (options_named ''job''))
      [Start (start_at 1000 50 10), Tick (cpu_fails (sample_at 1050 50 20))])) = 2 \<and>
   length (cpuSamples (run (session (options_named ''job''))
      [Start (start_at 1000 50 10), Tick (cpu_fails (sample_at 1050 50 20))])) = 1"
  by code_simp

theorem C4_lengths_in_step_witness:
  "length (memorySamples (session (options_named ''job''))) =
     length (cpuSamples (session (options_named ''job''))) \<and>
   list_all (\<lambda>x. list_all paired (op_samples x))
     [Start (start_at 1000 50 10), Tick (memory_fails (sample_at 1050 50 20)), LagTick 1060,
      Stop (stop_at 1100 50 30)] \<and>
   length (memorySamples (run (session (options_named ''job''))
     [Start (start_at 1000 50 10), Tick (memory_fails (sample_at 1050 50 20)), LagTick 1060,
      Stop (stop_at 1100 50 30)])) =
   length (cpuSamples (run (session (options_named ''job''))
     [Start (start_at 1000 50 10), Tick (memory_fails (sample_at 1050 50 20)), LagTick 1060,
      Stop (stop_at 1100 50 30)])) \<and>
   \<not> running (session (options_named ''job'')) \<and>
   list_all captures_ok
     (start_sample (start_at 1000 50 10) # [sample_at 1050 50 20] @ [stop_sample (stop_at 1100 50 30)]) \<and>
   length (memorySamples (run (session (options_named ''job''))
     (cycle_ops (start_at 1000 50 10) [sample_at 1050 50 20] (stop_at 1100 50 30)))) = 3 \<and>
   length (cpuSamples (run (session (options_named ''job''))
     (cycle_ops (start_at 1000 50 10) [sample_at 1050 50 20] (stop_at 1100 50 30)))) = 3"
proof -
  let ?d = "session (options_named ''job'')"
  let ?ops = "[Start (start_at 1000 50 10), Tick (memory_fails (sample_at 1050 50 20)), LagTick 1060,
      Stop (stop_at 1100 50 30)]"
  have a: "length (memorySamples ?d) = length (cpuSamples ?d)" by code_simp
  have b: "list_all (\<lambda>x. list_all paired (op_samples x)) ?ops" by code_simp
  have c: "\<not> running ?d" by code_simp
  have e: "list_all captures_ok
     (start_sample (start_at 1000 50 10) # [sample_at 1050 50 20] @ [stop_sample (stop_at 1100 50 30)])"
    by code_simp
  from C4_lengths_in_step [of ?d ?ops "start_at 1000 50 10" "[sample_at 1050 50 20]" "stop_at 1100 50 30"]
    a b c e
  show ?thesis by (simp add: list_all_iff)
qed

subsection \<open>Time over target\<close>

lemma track_target_mono:
  "\<forall>c. lastTargetCheck d = Some c \<longrightarrow> c \<le> now \<Longrightarrow>
   timeOverTarget d \<le> timeOverTarget (track_target d m now)"
  by (simp add: track_target_def Let_def split: option.splits)

lemma takeSample_timeOverTarget_mono:
  assumes clock: "\<forall>c. lastTargetCheck d = Some c \<longrightarrow> c \<le> now_target e"
  shows "timeOverTarget d \<le> timeOverTarget (takeSample d e)"
proof -
  consider (skip) "takeSample d e = d"
    | (mem_only) m where "takeSample d e = d\<lparr>memorySamples := memorySamples d @ [m]\<rparr>"
    | (full) m c where "takeSample d e =
        track_target
          (check_threshold
             (d\<lparr>memorySamples := memorySamples d @ [m], cpuSamples := cpuSamples d @ [c]\<rparr>)
             m e)
          m (now_target e)"
    using takeSample_shape [of d e] by blast
  then show ?thesis
  proof cases
    case skip
    then show ?thesis by simp
  next
    case mem_only
    then show ?thesis by simp
  next
    case full
    let ?X = "check_threshold
             (d\<lparr>memorySamples := memorySamples d @ [m], cpuSamples := cpuSamples d @ [c]\<rparr>)
             m e"
    have "timeOverTarget ?X \<le> timeOverTarget (track_target ?X m (now_target e))"
      by (rule track_target_mono) (simp add: clock check_threshold_fields track_target_fields)
    with full show ?thesis by (simp add: check_threshold_fields track_target_fields)
  qed
qed

lemma stop_timeOverTarget_mono:
  "\<forall>c. lastTargetCheck d = Some c \<longrightarrow> c \<le> now_target (stop_sample e) \<Longrightarrow>
   timeOverTarget d \<le> timeOverTarget (stop d e)"
  using takeSample_timeOverTarget_mono [of "d\<lparr>running := False, endTime := Some (now_endTime e)\<rparr>" "stop_sample e"]
  by (simp add: stop_def Let_def)

text \<open>
  C5, as the code has it: while the session is running, every operation other
  than \<open>reset\<close> (an interval tick, \<open>stop\<close>, \<open>report\<close>, a repeated \<open>start\<close>, a
  tick of the lag monitor) leaves \<open>timeOverTarget\<close> unchanged or adds a
  non-negative delta, provided that the \<open>Date.now()\<close> reading of the target
  check is not earlier than the last checkpoint.
\<close>

theorem C5_timeOverTarget_monotone:
  "running d \<and> (\<forall>e. x \<noteq> Reset e) \<and>
   (\<forall>c. lastTargetCheck d = Some c \<longrightarrow> (\<forall>e \<in> set (op_samples x). c \<le> now_target e)) \<longrightarrow>
   timeOverTarget d \<le> timeOverTarget (step d x)"
proof (cases x)
  case (Start e)
  then show ?thesis by (simp add: start_def)
next
  case (Tick e)
  then show ?thesis using takeSample_timeOverTarget_mono [of d e] by (simp add: tick_def)
next
  case (Stop e)
  then show ?thesis using stop_timeOverTarget_mono [of d e] by simp
next
  case (Report e)
  then show ?thesis using stop_timeOverTarget_mono [of d "report_stop e"]
    by (simp add: report_def Let_def)
next
  case (Reset e)
  then show ?thesis by simp
next
  case (LagTick t)
  then show ?thesis by simp
qed

text \<open>
  The delta is \<open>Date.now() - lastTargetCheck\<close>, and \<open>Date.now()\<close> is the wall
  clock: a tick that reads a time earlier than the last checkpoint, while the
  memory is over the target, subtracts from the accumulator.
\<close>

theorem C5_counterexample:
  "running (run (session (options_target 1)) [Start (start_at 2000 50 10)]) \<and>
   timeOverTarget (run (session (options_target 1)) [Start (start_at 2000 50 10)]) = 0 \<and>
   timeOverTarget (run (session (options_target 1))
      [Start (start_at 2000 50 10), Tick (sample_at 1500 50 20)]) = - 500"
  by code_simp

theorem C5_timeOverTarget_monotone_witness:
  "running (run (session (options_target 1)) [Start (start_at 2000 50 10)]) \<and>
   lastTargetCheck (run (session (options_target 1)) [Start (start_at 2000 50 10)]) = Some 2000 \<and>
   2000 \<le> now_target (sample_at 2050 50 20) \<and>
   timeOverTarget (run (session (options_target 1)) [Start (start_at 2000 50 10)]) = 0 \<and>
   timeOverTarget (step (run (session (options_target 1)) [Start (start_at 2000 50 10)])
      (Tick (sample_at 2050 50 20))) = 50"
proof -
  let ?d = "run (session (options_target 1)) [Start (start_at 2000 50 10)]"
  have a: "running ?d" by code_simp
  have b: "lastTargetCheck ?d = Some 2000" by code_simp
  have c: "2000 \<le> now_target (sample_at 2050 50 20)" by code_simp
  have v0: "timeOverTarget ?d = 0" by code_simp
  have v1: "timeOverTarget (step ?d (Tick (sample_at 2050 50 20))) = 50" by code_simp
  from C5_timeOverTarget_monotone [of ?d "Tick (sample_at 2050 50 20)"] a b c v0 v1
  show ?thesis by simp
qed

subsection \<open>Time over and under target in the report\<close>

lemma track_target_bound:
  assumes "lastTargetCheck d = Some c" and "timeOverTarget d \<le> c - st" and "c \<le> now"
  shows "\<exists>c'. lastTargetCheck (track_target d m now) = Some c' \<and> (c' = c \<or> c' = now) \<and>
              timeOverTarget (track_target d m now) \<le> c' - st"
  using assms by (simp add: track_target_def Let_def split: option.splits)

lemma takeSample_bound:
  assumes c: "lastTargetCheck d = Some c" and b: "timeOverTarget d \<le> c - st"
    and le: "c \<le> now_target e"
  shows "\<exists>c'. lastTargetCheck (takeSample d e) = Some c' \<and> (c' = c \<or> c' = now_target e) \<and>
              timeOverTarget (takeSample d e) \<le> c' - st"
proof -
  consider (skip) "takeSample d e = d"
    | (mem_only) m where "takeSample d e = d\<lparr>memorySamples := memorySamples d @ [m]\<rparr>"
    | (full) m s where "takeSample d e =
        track_target
          (check_threshold
             (d\<lparr>memorySamples := memorySamples d @ [m], cpuSamples := cpuSamples d @ [s]\<rparr>)
             m e)
          m (now_target e)"
    using takeSample_shape [of d e] by blast
  then show ?thesis
  proof cases
    case skip
    then show ?thesis using c b by simp
  next
    case mem_only
    then show ?thesis using c b by simp
  next
    case full
    let ?X = "check_threshold
             (d\<lparr>memorySamples := memorySamples d @ [m], cpuSamples := cpuSamples d @ [s]\<rparr>)
             m e"
    have "\<exists>c'. lastTargetCheck (track_target ?X m (now_target e)) = Some c' \<and>
               (c' = c \<or> c' = now_target e) \<and>
               timeOverTarget (track_target ?X m (now_target e)) \<le> c' - st"
      by (rule track_target_bound) (simp_all add: c b le check_threshold_fields track_target_fields)
    with full show ?thesis by simp
  qed
qed

lemma ticks_bound:
  "lastTargetCheck d = Some c \<Longrightarrow> timeOverTarget d \<le> c - st \<Longrightarrow>
   sorted (c # map now_target es) \<Longrightarrow> \<forall>t \<in> set (c # map now_target es). t \<le> hi \<Longrightarrow>
   \<exists>c'. lastTargetCheck (run d (map Tick es)) = Some c' \<and> c' \<le> hi \<and>
        timeOverTarget (run d (map Tick es)) \<le> c' - st"
proof (induction es arbitrary: d c)
  case Nil
  then show ?case by (simp add: run_Nil)
next
  case (Cons e es)
  have le: "c \<le> now_target e" using Cons.prems(3) by simp
  have "\<exists>c1. lastTargetCheck (tick d e) = Some c1 \<and> (c1 = c \<or> c1 = now_target e) \<and>
             timeOverTarget (tick d e) \<le> c1 - st"
  proof (cases "intervalHandle d \<noteq> None")
    case True
    then show ?thesis
      using takeSample_bound [OF Cons.prems(1) Cons.prems(2) le] by (simp add: tick_def)
  next
    case False
    then show ?thesis using Cons.prems(1,2) by (simp add: tick_def)
  qed
  then obtain c1 where c1: "lastTargetCheck (tick d e) = Some c1"
    and alt: "c1 = c \<or> c1 = now_target e"
    and b1: "timeOverTarget (tick d e) \<le> c1 - st" by blast
  have s1: "sorted (c1 # map now_target es)"
    using alt Cons.prems(3) by auto
  have h1: "\<forall>t \<in> set (c1 # map now_target es). t \<le> hi"
    using alt Cons.prems(4) by auto
  from Cons.IH [OF c1 b1 s1 h1] show ?case by (simp add: run_Cons)
qed

lemma run_ticks_startTime:
  "startTime (run d (map Tick es)) = startTime d"
  by (induction es arbitrary: d) (simp_all add: run_Nil run_Cons tick_def takeSample_config)

lemma start_bound:
  assumes "\<not> running d" and "now_startTime e \<le> now_lastTargetCheck e"
    and "now_lastTargetCheck e \<le> now_target (start_sample e)"
  shows "\<exists>c. lastTargetCheck (start d e) = Some c \<and>
             (c = now_lastTargetCheck e \<or> c = now_target (start_sample e)) \<and>
             timeOverTarget (start d e) \<le> c - now_startTime e \<and>
             startTime (start d e) = Some (now_startTime e)"
proof -
  let ?d1 = "d\<lparr>running := True, startTime := Some (now_startTime e), memorySamples := [],
                cpuSamples := [], alertTriggerCount := 0, timeOverTarget := 0,
                lastTargetCheck := Some (now_lastTargetCheck e)\<rparr>"
  have "\<exists>c. lastTargetCheck (takeSample ?d1 (start_sample e)) = Some c \<and>
            (c = now_lastTargetCheck e \<or> c = now_target (start_sample e)) \<and>
            timeOverTarget (takeSample ?d1 (start_sample e)) \<le> c - now_startTime e"
    by (rule takeSample_bound) (simp_all add: assms)
  then show ?thesis using assms(1) by (simp add: start_def Let_def takeSample_config)
qed

lemma stop_bound:
  assumes "running d" and "lastTargetCheck d = Some c" and "timeOverTarget d \<le> c - st"
    and "c \<le> now_target (stop_sample e)"
  shows "timeOverTarget (stop d e) \<le> now_target (stop_sample e) - st \<and>
         endTime (stop d e) = Some (now_endTime e) \<and> startTime (stop d e) = startTime d \<and>
         \<not> running (stop d e)"
proof -
  let ?d1 = "d\<lparr>running := False, endTime := Some (now_endTime e)\<rparr>"
  have "\<exists>c'. lastTargetCheck (takeSample ?d1 (stop_sample e)) = Some c' \<and>
            (c' = c \<or> c' = now_target (stop_sample e)) \<and>
            timeOverTarget (takeSample ?d1 (stop_sample e)) \<le> c' - st"
    by (rule takeSample_bound) (simp_all add: assms)
  then obtain c' where "c' = c \<or> c' = now_target (stop_sample e)"
    and "timeOverTarget (takeSample ?d1 (stop_sample e)) \<le> c' - st" by blast
  then have "timeOverTarget (takeSample ?d1 (stop_sample e)) \<le> now_target (stop_sample e) - st"
    using assms(4) by auto
  then show ?thesis using assms(1) by (simp add: stop_def Let_def takeSample_config)
qed

lemma cycle_bound:
  assumes idle: "\<not> running d" and pos: "0 < now_startTime e0"
    and clk: "sorted (cycle_clock e0 es e1)"
  shows "timeOverTarget (run d (cycle_ops e0 es e1)) \<le> now_target (stop_sample e1) - now_startTime e0"
    and "startTime (run d (cycle_ops e0 es e1)) = Some (now_startTime e0)"
    and "endTime (run d (cycle_ops e0 es e1)) = Some (now_endTime e1)"
    and "\<not> running (run d (cycle_ops e0 es e1))"
    and "now_startTime e0 \<le> now_endTime e1"
    and "now_endTime e1 \<le> now_target (stop_sample e1)"
proof -
  let ?a = "now_startTime e0" and ?b = "now_lastTargetCheck e0"
  let ?t0 = "now_target (start_sample e0)"
  let ?te = "now_endTime e1" and ?tf = "now_target (stop_sample e1)"
  let ?d1 = "start d e0"
  let ?d2 = "run ?d1 (map Tick es)"
  from clk have ab: "?a \<le> ?b" and bt: "?b \<le> ?t0"
    and st: "sorted (?t0 # map now_target es)"
    and hi: "\<forall>t \<in> set (?t0 # map now_target es). t \<le> ?te"
    and ef: "?te \<le> ?tf"
    by (auto simp: cycle_clock_def sorted_append)
  from start_bound [OF idle ab bt] obtain c1 where
    c1: "lastTargetCheck ?d1 = Some c1" and alt: "c1 = ?b \<or> c1 = ?t0"
    and b1: "timeOverTarget ?d1 \<le> c1 - ?a" and s1: "startTime ?d1 = Some ?a" by blast
  have st1: "sorted (c1 # map now_target es)" using alt bt st by auto
  have hi1: "\<forall>t \<in> set (c1 # map now_target es). t \<le> ?te" using alt bt hi by auto
  from ticks_bound [OF c1 b1 st1 hi1] obtain c2 where
    c2: "lastTargetCheck ?d2 = Some c2" and le2: "c2 \<le> ?te"
    and b2: "timeOverTarget ?d2 \<le> c2 - ?a" by blast
  have r1: "running ?d1" and h1: "intervalHandle ?d1 \<noteq> None"
    using start_samples [OF idle, of e0] by simp_all
  have r2: "running ?d2" using run_ticks [OF h1, of es] r1 by simp
  have s2: "startTime ?d2 = Some ?a" using s1 by (simp add: run_ticks_startTime)
  have le2': "c2 \<le> ?tf" using le2 ef by simp
  from stop_bound [OF r2 c2 b2 le2'] s2
  have fin: "timeOverTarget (stop ?d2 e1) \<le> ?tf - ?a \<and> endTime (stop ?d2 e1) = Some ?te \<and>
             startTime (stop ?d2 e1) = Some ?a \<and> \<not> running (stop ?d2 e1)" by simp
  have run_eq: "run d (cycle_ops e0 es e1) = stop ?d2 e1" by (simp add: cycle_ops_def run_Nil run_Cons run_append)
  show "timeOverTarget (run d (cycle_ops e0 es e1)) \<le> ?tf - ?a" using fin run_eq by simp
  show "startTime (run d (cycle_ops e0 es e1)) = Some ?a" using fin run_eq by simp
  show "endTime (run d (cycle_ops e0 es e1)) = Some ?te" using fin run_eq by simp
  show "\<not> running (run d (cycle_ops e0 es e1))" using fin run_eq by simp
  show "?a \<le> ?te" using ab bt hi by auto
  show "?te \<le> ?tf" by (rule ef)
qed

text \<open>
  C3, as the code has it.  For a session started on a stopped object, ticked
  and stopped, with non-decreasing clock readings: \<open>clock.duration\<close> is
  \<open>endTime - startTime\<close>; \<open>timeOverTarget + timeUnderTarget\<close> is the larger of
  \<open>clock.duration\<close> and \<open>timeOverTarget\<close>, so it is never below
  \<open>clock.duration\<close>; and it exceeds \<open>clock.duration\<close> by at most the time that
  passes between the reading of \<open>endTime\<close> and the target check of the final
  sample, which \<open>stop\<close> takes after it has set \<open>endTime\<close>.
\<close>

theorem C3_over_plus_under:
  "\<not> running d \<and> 0 < now_startTime e0 \<and> sorted (cycle_clock e0 es e1) \<longrightarrow>
   (let r = fst (report (run d (cycle_ops e0 es e1)) er);
        over = an_timeOverTarget (analysis r);
        under = timeUnderTarget (analysis r);
        dur = duration (clock r)
    in dur = now_endTime e1 - now_startTime e0 \<and>
       over + under = max dur over \<and>
       dur \<le> over + under \<and>
       over + under \<le> dur + (now_target (stop_sample e1) - now_endTime e1))"
proof
  assume h: "\<not> running d \<and> 0 < now_startTime e0 \<and> sorted (cycle_clock e0 es e1)"
  let ?d = "run d (cycle_ops e0 es e1)"
  from h have idle: "\<not> running d" and pos: "0 < now_startTime e0"
    and clk: "sorted (cycle_clock e0 es e1)" by simp_all
  note cb = cycle_bound [OF idle pos clk]
  have te: "now_endTime e1 \<noteq> 0" using cb(5) pos by simp
  have sa: "now_startTime e0 \<noteq> 0" using pos by simp
  show "let r = fst (report ?d er);
        over = an_timeOverTarget (analysis r);
        under = timeUnderTarget (analysis r);
        dur = duration (clock r)
    in dur = now_endTime e1 - now_startTime e0 \<and>
       over + under = max dur over \<and>
       dur \<le> over + under \<and>
       over + under \<le> dur + (now_target (stop_sample e1) - now_endTime e1)"
    using cb(1) cb(2) cb(3) cb(4) cb(5) cb(6) te sa
    by (simp add: report_def Let_def or_else_def max_def)
qed

text \<open>
  With an interval of 50 ms, a session over its target whose final sample
  checks the target 60 ms after \<open>endTime\<close> was read reports a sum of 260 ms
  against a duration of 200 ms: the sum exceeds the duration, and by more than
  one sampling interval.
\<close>

theorem C3_counterexample:
  "(let r = fst (report (run (session (options_target 1))
                   (cycle_ops (start_at 1000 50 10) []
                      ((stop_at 1200 50 30)\<lparr>stop_sample := sample_at 1260 50 30\<rparr>)))
                 (report_at 1300 50 40));
        total_time = an_timeOverTarget (analysis r) + timeUnderTarget (analysis r)
    in total_time = 260 \<and> duration (clock r) = 200 \<and> samplingInterval (analysis r) = 50 \<and>
       \<not> total_time \<le> duration (clock r) \<and>
       \<not> \<bar>total_time - duration (clock r)\<bar> \<le> samplingInterval (analysis r))"
  by code_simp

theorem C3_over_plus_under_witness:
  "\<not> running (session (options_target 1)) \<and>
   0 < now_startTime (start_at 1000 50 10) \<and>
   sorted (cycle_clock (start_at 1000 50 10) [sample_at 1050 50 20, sample_at 1100 50 30]
             (stop_at 1200 50 40)) \<and>
   (let r = fst (report (run (session (options_target 1))
                   (cycle_ops (start_at 1000 50 10) [sample_at 1050 50 20, sample_at 1100 50 30]
                      (stop_at 1200 50 40)))
                 (report_at 1300 50 50))
    in (an_timeOverTarget (analysis r), timeUnderTarget (analysis r), duration (clock r)))
     = (200, 0, 200)"
proof -
  let ?d = "session (options_target 1)"
  let ?e0 = "start_at 1000 50 10"
  let ?es = "[sample_at 1050 50 20, sample_at 1100 50 30]"
  let ?e1 = "stop_at 1200 50 40"
  have a: "\<not> running ?d" by code_simp
  have b: "0 < now_startTime ?e0" by code_simp
  have c: "sorted (cycle_clock ?e0 ?es ?e1)" by code_simp
  have v: "(let r = fst (report (run ?d (cycle_ops ?e0 ?es ?e1)) (report_at 1300 50 50))
            in (an_timeOverTarget (analysis r), timeUnderTarget (analysis r), duration (clock r)))
           = (200, 0, 200)" by code_simp
  from C3_over_plus_under [of ?d ?e0 ?es ?e1 "report_at 1300 50 50"] a b c v
  show ?thesis by (simp add: Let_def)
qed

subsection \<open>CPU statistics of the report\<close>








subsection \<open>Falsy option values\<close>

lemma check_threshold_none: "threshold d = None \<Longrightarrow> check_threshold d m t = d"
  by (simp add: check_threshold_def)

lemma track_target_none: "target d = None \<Longrightarrow> track_target d m t = d"
  by (simp add: track_target_def)

lemma takeSample_no_threshold:
  "threshold d = None \<Longrightarrow>
   alertTriggerCount (takeSample d e) = alertTriggerCount d \<and>
   alertsDelivered (takeSample d e) = alertsDelivered d"
  by (simp add: check_threshold_fields track_target_fields takeSample_def Let_def check_threshold_none split: sum.splits)

lemma takeSample_no_target:
  "target d = None \<Longrightarrow> timeOverTarget (takeSample d e) = timeOverTarget d"
  by (simp add: check_threshold_fields track_target_fields takeSample_def Let_def track_target_none split: sum.splits)

lemma stop_no_threshold:
  "threshold d = None \<Longrightarrow>
   alertTriggerCount (stop d e) = alertTriggerCount d \<and> alertsDelivered (stop d e) = alertsDelivered d"
  by (simp add: stop_def Let_def takeSample_no_threshold)

lemma stop_no_target:
  "target d = None \<Longrightarrow> timeOverTarget (stop d e) = timeOverTarget d"
  by (simp add: stop_def Let_def takeSample_no_target)

lemma start_config:
  "threshold (start d e) = threshold d \<and> target (start d e) = target d"
  by (simp add: start_def Let_def takeSample_config)

lemma step_no_threshold:
  assumes "threshold d = None" and "alertTriggerCount d = 0" and "alertsDelivered d = []"
  shows "threshold (step d x) = None \<and> alertTriggerCount (step d x) = 0 \<and>
         alertsDelivered (step d x) = []"
proof (cases x)
  case (Start e)
  then show ?thesis using assms
    by (simp add: start_def Let_def takeSample_config takeSample_no_threshold)
next
  case (Tick e)
  then show ?thesis using assms
    by (simp add: tick_def takeSample_config takeSample_no_threshold)
next
  case (Stop e)
  then show ?thesis using assms by (simp add: stop_config stop_no_threshold)
next
  case (Report e)
  then show ?thesis using assms by (simp add: report_def Let_def stop_config stop_no_threshold)
next
  case (Reset e)
  then show ?thesis using assms by (simp add: reset_def Let_def stop_config stop_no_threshold)
next
  case (LagTick t)
  then show ?thesis using assms by simp
qed

lemma step_no_target:
  assumes "target d = None" and "timeOverTarget d = 0"
  shows "target (step d x) = None \<and> timeOverTarget (step d x) = 0"
proof (cases x)
  case (Start e)
  then show ?thesis using assms
    by (simp add: start_def Let_def takeSample_config takeSample_no_target)
next
  case (Tick e)
  then show ?thesis using assms
    by (simp add: tick_def takeSample_config takeSample_no_target)
next
  case (Stop e)
  then show ?thesis using assms by (simp add: stop_config stop_no_target)
next
  case (Report e)
  then show ?thesis using assms by (simp add: report_def Let_def stop_config stop_no_target)
next
  case (Reset e)
  then show ?thesis using assms by (simp add: reset_def Let_def stop_config)
next
  case (LagTick t)
  then show ?thesis using assms by simp
qed

lemma run_no_threshold:
  "threshold d = None \<Longrightarrow> alertTriggerCount d = 0 \<Longrightarrow> alertsDelivered d = [] \<Longrightarrow>
   alertTriggerCount (run d ops) = 0 \<and> alertsDelivered (run d ops) = []"
proof (induction ops arbitrary: d)
  case Nil
  then show ?case by (simp add: run_Nil)
next
  case (Cons x xs)
  from step_no_threshold [OF Cons.prems, of x] Cons.IH [of "step d x"]
  show ?case by (simp add: run_Cons)
qed

lemma run_no_target:
  "target d = None \<Longrightarrow> timeOverTarget d = 0 \<Longrightarrow> timeOverTarget (run d ops) = 0"
proof (induction ops arbitrary: d)
  case Nil
  then show ?case by (simp add: run_Nil)
next
  case (Cons x xs)
  from step_no_target [OF Cons.prems, of x] Cons.IH [of "step d x"]
  show ?case by (simp add: run_Cons)
qed

text \<open>
  C10: an interval of 0 is replaced by the default 5000, and a threshold or a
  target of 0 constructs the very session that the absent option constructs;
  on it no history ever triggers an alert or invokes the alert callback
  (threshold 0), or accumulates time over target (target 0).
\<close>

theorem C10_zero_options_are_defaults:
  "Diagnostics_new (options\<lparr>opt_interval := Some 0\<rparr>) host =
     Diagnostics_new (options\<lparr>opt_interval := None\<rparr>) host \<and>
   interval (Diagnostics_fields (options\<lparr>opt_interval := Some 0\<rparr>) host) = 5000 \<and>
   Diagnostics_new (options\<lparr>opt_threshold := Some 0\<rparr>) host =
     Diagnostics_new (options\<lparr>opt_threshold := None\<rparr>) host \<and>
   Diagnostics_new (options\<lparr>opt_target := Some 0\<rparr>) host =
     Diagnostics_new (options\<lparr>opt_target := None\<rparr>) host \<and>
   alertTriggerCount (run (Diagnostics_fields (options\<lparr>opt_threshold := Some 0\<rparr>) host) ops) = 0 \<and>
   alertsDelivered (run (Diagnostics_fields (options\<lparr>opt_threshold := Some 0\<rparr>) host) ops) = [] \<and>
   timeOverTarget (run (Diagnostics_fields (options\<lparr>opt_target := Some 0\<rparr>) host) ops) = 0"
proof -
  have i: "Diagnostics_fields (options\<lparr>opt_interval := Some 0\<rparr>) host =
           Diagnostics_fields (options\<lparr>opt_interval := None\<rparr>) host"
    by (simp add: Diagnostics_fields_def or_else_def)
  have t: "Diagnostics_fields (options\<lparr>opt_threshold := Some 0\<rparr>) host =
           Diagnostics_fields (options\<lparr>opt_threshold := None\<rparr>) host"
    by (simp add: Diagnostics_fields_def or_null_def truthy_def)
  have g: "Diagnostics_fields (options\<lparr>opt_target := Some 0\<rparr>) host =
           Diagnostics_fields (options\<lparr>opt_target := None\<rparr>) host"
    by (simp add: Diagnostics_fields_def or_null_def truthy_def)
  have iv: "interval (Diagnostics_fields (options\<lparr>opt_interval := Some 0\<rparr>) host) = 5000"
    by (simp add: Diagnostics_fields_def or_else_def)
  have thr: "alertTriggerCount (run (Diagnostics_fields (options\<lparr>opt_threshold := Some 0\<rparr>) host) ops) = 0 \<and>
             alertsDelivered (run (Diagnostics_fields (options\<lparr>opt_threshold := Some 0\<rparr>) host) ops) = []"
    by (rule run_no_threshold) (simp_all add: Diagnostics_fields_def or_null_def truthy_def)
  have tgt: "timeOverTarget (run (Diagnostics_fields (options\<lparr>opt_target := Some 0\<rparr>) host) ops) = 0"
    by (rule run_no_target) (simp_all add: Diagnostics_fields_def or_null_def truthy_def)
  show ?thesis using i t g iv thr tgt
    by (simp add: Diagnostics_new_def name_missing_def)
qed

theorem C10_zero_options_are_defaults_witness:
  "interval (session ((options_named ''job'')\<lparr>opt_interval := Some 0\<rparr>)) = 5000 \<and>
   threshold (session ((options_named ''job'')\<lparr>opt_threshold := Some 0\<rparr>)) = None \<and>
   target (session ((options_named ''job'')\<lparr>opt_target := Some 0\<rparr>)) = None \<and>
   alertTriggerCount (run (session ((options_named ''job'')\<lparr>opt_threshold := Some 0\<rparr>))
      (cycle_ops (start_at 1000 50 10) [sample_at 1050 50 20] (stop_at 1100 50 30))) = 0 \<and>
   timeOverTarget (run (session ((options_named ''job'')\<lparr>opt_target := Some 0\<rparr>))
      (cycle_ops (start_at 1000 50 10) [sample_at 1050 50 20] (stop_at 1100 50 30))) = 0 \<and>
   alertTriggerCount (run (session ((options_named ''job'')\<lparr>opt_threshold := Some 1\<rparr>))
      (cycle_ops (start_at 1000 50 10) [sample_at 1050 50 20] (stop_at 1100 50 30))) = 3 \<and>
   timeOverTarget (run (session ((options_named ''job'')\<lparr>opt_target := Some 1\<rparr>))
      (cycle_ops (start_at 1000 50 10) [sample_at 1050 50 20] (stop_at 1100 50 30))) = 100"
proof -
  have a: "threshold (session ((options_named ''job'')\<lparr>opt_threshold := Some 0\<rparr>)) = None" by code_simp
  have b: "target (session ((options_named ''job'')\<lparr>opt_target := Some 0\<rparr>)) = None" by code_simp
  have c: "alertTriggerCount (run (session ((options_named ''job'')\<lparr>opt_threshold := Some 1\<rparr>))
      (cycle_ops (start_at 1000 50 10) [sample_at 1050 50 20] (stop_at 1100 50 30))) = 3"
    by (simp add: session_def options_named_def Diagnostics_fields_def cycle_ops_def run_def
          start_def stop_def tick_def takeSample_def check_threshold_def track_target_def
          start_at_def stop_at_def sample_at_def MemorySnapshot_new_def total_def or_null_def
          truthy_def or_else_def Let_def safeExecute_def)
  have d: "timeOverTarget (run (session ((options_named ''job'')\<lparr>opt_target := Some 1\<rparr>))
      (cycle_ops (start_at 1000 50 10) [sample_at 1050 50 20] (stop_at 1100 50 30))) = 100" by code_simp
  from C10_zero_options_are_defaults [of "options_named ''job''" host_ok
         "cycle_ops (start_at 1000 50 10) [sample_at 1050 50 20] (stop_at 1100 50 30)"] a b c d
  show ?thesis by (simp add: session_def)
qed

end
